theory Spec2Isabelle
  imports Complex_Main "HOL-Library.Code_Target_Numeral"
begin

section \<open>JavaScript values\<close>

subsection \<open>Numbers\<close>

text \<open>
  A JavaScript number is a double: a finite value, one of the two infinities, or NaN. A
  finite double is kept as the rational it denotes; the two zeros are not distinguished.
\<close>

datatype number = NaN | NegInf | Fin rat | PosInf

text \<open>
  Rounding a rational to the nearest double, ties to the even significand: the binade of
  the magnitude \<open>a\<close> is \<open>2 ^ e \<le> a < 2 ^ (e + 1)\<close>, with \<open>e\<close> not below -1022 (the
  subnormal range), the spacing of doubles there is \<open>2 ^ (e - 52)\<close>, and a result that
  reaches \<open>2 ^ 1024\<close> is an infinity. \<open>bit_length n\<close> is the number of binary digits of
  \<open>n\<close>, \<open>ilog2 a\<close> the integer part of the binary logarithm of a positive \<open>a\<close>.
\<close>

fun bit_length :: "nat \<Rightarrow> nat" where
  "bit_length n = (if n = 0 then 0 else Suc (bit_length (n div 2)))"

declare bit_length.simps [simp del]

definition pow2 :: "int \<Rightarrow> rat" where
  "pow2 e = (if 0 \<le> e then 2 ^ nat e else 1 / 2 ^ nat (- e))"

definition ilog2 :: "rat \<Rightarrow> int" where
  "ilog2 a =
     (if 1 \<le> a then int (bit_length (nat \<lfloor>a\<rfloor>)) - 1
      else - int (bit_length (nat \<lceil>1 / a\<rceil> - 1)))"

definition round_half_even :: "rat \<Rightarrow> int" where
  "round_half_even x =
     (let f = \<lfloor>x\<rfloor>; d = x - of_int f
      in if d < 1 / 2 then f
         else if 1 / 2 < d then f + 1
         else if even f then f else f + 1)"

definition round_double :: "rat \<Rightarrow> number" where
  "round_double q =
     (if q = 0 then Fin 0
      else
        let a = \<bar>q\<bar>;
            e = max (ilog2 a) (- 1022);
            u = pow2 (e - 52);
            r = of_int (round_half_even (a / u)) * u
        in if pow2 1024 \<le> r then (if q < 0 then NegInf else PosInf)
           else Fin (if q < 0 then - r else r))"

fun num_le :: "number \<Rightarrow> number \<Rightarrow> bool" where
  "num_le NaN _ = False"
| "num_le _ NaN = False"
| "num_le NegInf _ = True"
| "num_le _ PosInf = True"
| "num_le (Fin a) (Fin b) = (a \<le> b)"
| "num_le (Fin _) NegInf = False"
| "num_le PosInf _ = False"

text \<open>\<^verbatim>\<open>isNaN\<close>, \<^verbatim>\<open>Math.min\<close> and \<^verbatim>\<open>Math.max\<close> on two numbers: NaN is contagious.\<close>

definition isNaN :: "number \<Rightarrow> bool" where
  "isNaN v = (v = NaN)"

definition Math_min :: "number \<Rightarrow> number \<Rightarrow> number" where
  "Math_min a b = (if a = NaN \<or> b = NaN then NaN else if num_le a b then a else b)"

definition Math_max :: "number \<Rightarrow> number \<Rightarrow> number" where
  "Math_max a b = (if a = NaN \<or> b = NaN then NaN else if num_le a b then b else a)"

subsection \<open>Strings and values\<close>

text \<open>
  A JavaScript string is a sequence of UTF-16 code units. \<open>js_string\<close> gives the string
  of an ASCII literal.
\<close>

type_synonym code_unit = nat

type_synonym jsstring = "code_unit list"

definition unit_of :: "char \<Rightarrow> code_unit" where
  "unit_of c = of_char c"

definition js_string :: "string \<Rightarrow> jsstring" where
  "js_string s = map unit_of s"

text \<open>
  The values a realtime-database snapshot can hold (\<^verbatim>\<open>snapshot.val()\<close>), plus
  \<^verbatim>\<open>undefined\<close> for a property that is not there. An object is a plain object: its
  list of own key/value pairs, with \<^verbatim>\<open>Object.prototype\<close> behind it.
\<close>

datatype jsval =
    JUndefined
  | JNull
  | JBool bool
  | JNumber number
  | JString jsstring
  | JArray "jsval list"
  | JObject "(jsstring \<times> jsval) list"

text \<open>Truthiness (\<^verbatim>\<open>!data\<close>, \<^verbatim>\<open>x || y\<close>): objects and arrays are always truthy.\<close>

fun truthy :: "jsval \<Rightarrow> bool" where
  "truthy JUndefined = False"
| "truthy JNull = False"
| "truthy (JBool b) = b"
| "truthy (JNumber n) = (n \<noteq> NaN \<and> n \<noteq> Fin 0)"
| "truthy (JString s) = (s \<noteq> [])"
| "truthy (JArray _) = True"
| "truthy (JObject _) = True"

text \<open>
  What the code can throw. Reading a property of \<^verbatim>\<open>null\<close> or \<^verbatim>\<open>undefined\<close>, and
  converting to a string an object that has no usable \<^verbatim>\<open>toString\<close>, is a TypeError; a
  failed read or write of the remote store is a transport error; \<^verbatim>\<open>throw new
  Error(msg)\<close> carries its message.
\<close>

datatype js_error = TypeError | TransportError | Error string

subsection \<open>parseFloat\<close>

text \<open>
  \<^verbatim>\<open>parseFloat(string)\<close> as ECMAScript defines it: leading white space is dropped (the
  white space and line terminator code points of the standard), then the longest prefix
  that is a \<^verbatim>\<open>StrDecimalLiteral\<close> is read (an optional sign, then \<^verbatim>\<open>Infinity\<close> or
  digits with an optional fraction and an optional exponent); what follows the prefix is
  ignored, and NaN is the result when there is no such prefix. The value is the double
  nearest to the decimal number read.
\<close>

definition is_space :: "code_unit \<Rightarrow> bool" where
  "is_space c =
     (c \<in> set [0x0009, 0x000A, 0x000B, 0x000C, 0x000D, 0x0020, 0x00A0, 0x1680,
                0x2000, 0x2001, 0x2002, 0x2003, 0x2004, 0x2005, 0x2006, 0x2007, 0x2008,
                0x2009, 0x200A, 0x2028, 0x2029, 0x202F, 0x205F, 0x3000, 0xFEFF])"

definition is_digit :: "code_unit \<Rightarrow> bool" where
  "is_digit c = (unit_of CHR ''0'' \<le> c \<and> c \<le> unit_of CHR ''9'')"

definition digit_val :: "code_unit \<Rightarrow> int" where
  "digit_val c = int c - int (unit_of CHR ''0'')"

definition digits_val :: "jsstring \<Rightarrow> int" where
  "digits_val ds = foldl (\<lambda>a c. 10 * a + digit_val c) 0 ds"

definition pow10 :: "int \<Rightarrow> rat" where
  "pow10 e = (if 0 \<le> e then 10 ^ nat e else 1 / 10 ^ nat (- e))"

text \<open>The exponent part \<^verbatim>\<open>e[+-]digits\<close>; without a digit after it, it is not part of the prefix.\<close>

definition exponent_part :: "jsstring \<Rightarrow> int" where
  "exponent_part s =
     (case s of
        [] \<Rightarrow> 0
      | c # r \<Rightarrow>
          if c = unit_of CHR ''e'' \<or> c = unit_of CHR ''E'' then
            (case r of
               [] \<Rightarrow> 0
             | d # r' \<Rightarrow>
                 if d = unit_of CHR ''+'' then
                   (if takeWhile is_digit r' = [] then 0 else digits_val (takeWhile is_digit r'))
                 else if d = unit_of CHR ''-'' then
                   (if takeWhile is_digit r' = [] then 0 else - digits_val (takeWhile is_digit r'))
                 else
                   (if takeWhile is_digit r = [] then 0 else digits_val (takeWhile is_digit r)))
          else 0)"

definition unsigned_literal :: "jsstring \<Rightarrow> number" where
  "unsigned_literal s =
     (if take 8 s = js_string ''Infinity'' then PosInf
      else
        let ip = takeWhile is_digit s;
            r1 = dropWhile is_digit s;
            fp = (case r1 of [] \<Rightarrow> []
                  | c # r \<Rightarrow> if c = unit_of CHR ''.'' then takeWhile is_digit r else []);
            r2 = (case r1 of [] \<Rightarrow> []
                  | c # r \<Rightarrow> if c = unit_of CHR ''.'' then dropWhile is_digit r else r1)
        in if ip = [] \<and> fp = [] then NaN
           else round_double
                  (of_int (digits_val (ip @ fp)) * pow10 (exponent_part r2 - int (length fp))))"

definition negate :: "number \<Rightarrow> number" where
  "negate n = (case n of NaN \<Rightarrow> NaN | NegInf \<Rightarrow> PosInf | PosInf \<Rightarrow> NegInf | Fin q \<Rightarrow> Fin (- q))"

definition parseFloat_string :: "jsstring \<Rightarrow> number" where
  "parseFloat_string s =
     (case dropWhile is_space s of
        [] \<Rightarrow> NaN
      | c # r \<Rightarrow>
          if c = unit_of CHR ''-'' then negate (unsigned_literal r)
          else if c = unit_of CHR ''+'' then unsigned_literal r
          else unsigned_literal (c # r))"

text \<open>
  \<^verbatim>\<open>parseFloat\<close> of any value first converts it to a string, and that conversion can
  throw. A plain object converts through \<^verbatim>\<open>toString\<close> and then \<^verbatim>\<open>valueOf\<close>: with an
  own entry named \<^verbatim>\<open>toString\<close> (a stored value, so not callable) the first is skipped,
  \<^verbatim>\<open>Object.prototype.valueOf\<close> (or an own \<^verbatim>\<open>valueOf\<close> entry) gives no primitive, and the
  result is a TypeError; without such an entry the string is \<^verbatim>\<open>[object Object]\<close>. An
  array converts every element that is not \<^verbatim>\<open>null\<close> or \<^verbatim>\<open>undefined\<close> and joins them
  with commas, so it throws when one of its elements does.
\<close>

fun to_string_throws :: "jsval \<Rightarrow> bool" where
  "to_string_throws (JObject kvs) = (map_of kvs (js_string ''toString'') \<noteq> None)"
| "to_string_throws (JArray xs) = list_ex to_string_throws xs"
| "to_string_throws _ = False"

text \<open>
  The number read when the conversion does not throw. A number converts to a string that
  reads back as the same number; \<^verbatim>\<open>true\<close>, \<^verbatim>\<open>false\<close>, \<^verbatim>\<open>null\<close>,
  \<^verbatim>\<open>undefined\<close> and \<^verbatim>\<open>[object Object]\<close> have no numeric prefix. In the string of an
  array the first comma ends every numeric prefix, and \<^verbatim>\<open>null\<close> and \<^verbatim>\<open>undefined\<close>
  elements are empty strings, so only the first element counts.
\<close>

fun read_number :: "jsval \<Rightarrow> number" where
  "read_number (JNumber n) = n"
| "read_number (JString s) = parseFloat_string s"
| "read_number (JArray (JNull # _)) = NaN"
| "read_number (JArray (JUndefined # _)) = NaN"
| "read_number (JArray (x # _)) = read_number x"
| "read_number (JArray []) = NaN"
| "read_number (JBool _) = NaN"
| "read_number (JObject _) = NaN"
| "read_number JNull = NaN"
| "read_number JUndefined = NaN"

definition parseFloat :: "jsval \<Rightarrow> js_error + number" where
  "parseFloat v = (if to_string_throws v then Inl TypeError else Inr (read_number v))"

section \<open>Dashboard: zones and the derived pump flag\<close>

text \<open>
  The state of the \<^verbatim>\<open>Dashboard\<close> component (its own \<^verbatim>\<open>interface SensorData\<close>, a
  different one from the data service's). The measurements are finite numbers.
\<close>

record DashboardSensorData =
  soilMoisture :: rat
  sunlight :: rat
  rainfall :: rat
  tankLevel :: rat
  phLevel :: rat
  pumpStatus :: bool
  zone1Status :: bool
  zone2Status :: bool
  isConnected :: bool
  lastUpdate :: string

text \<open>The initial \<^verbatim>\<open>useState\<close> value; \<open>now\<close> is \<^verbatim>\<open>new Date().toLocaleTimeString()\<close>.\<close>

definition initialSensorData :: "string \<Rightarrow> DashboardSensorData" where
  "initialSensorData now =
     \<lparr>soilMoisture = 65, sunlight = 24, rainfall = 58, tankLevel = 82, phLevel = 34 / 5,
      pumpStatus = False, zone1Status = False, zone2Status = False, isConnected = True,
      lastUpdate = now\<rparr>"

text \<open>
  One run of the interval callback. The five \<^verbatim>\<open>Math.random()\<close> draws and the clock
  reading are inputs, in the order the callback takes them.
\<close>

definition simulatedUpdate ::
  "rat \<Rightarrow> rat \<Rightarrow> rat \<Rightarrow> rat \<Rightarrow> rat \<Rightarrow> string \<Rightarrow> DashboardSensorData \<Rightarrow> DashboardSensorData" where
  "simulatedUpdate r1 r2 r3 r4 r5 now prev =
     prev\<lparr>soilMoisture := max 30 (min 100 (soilMoisture prev + (r1 - 1 / 2) * 10)),
          sunlight := max 15 (min 35 (sunlight prev + (r2 - 1 / 2) * 2)),
          rainfall := max 40 (min 90 (rainfall prev + (r3 - 1 / 2) * 5)),
          tankLevel := max 0 (min 100 (tankLevel prev + (r4 - 1 / 2) * 3)),
          phLevel := max 5 (min (17 / 2) (phLevel prev + (r5 - 1 / 2) * (3 / 10))),
          lastUpdate := now\<rparr>"

definition toggleZone1 :: "DashboardSensorData \<Rightarrow> DashboardSensorData" where
  "toggleZone1 prev =
     (let newZone1Status = \<not> zone1Status prev;
          newPumpStatus = (newZone1Status \<or> zone2Status prev)
      in prev\<lparr>zone1Status := newZone1Status, pumpStatus := newPumpStatus\<rparr>)"

definition toggleZone2 :: "DashboardSensorData \<Rightarrow> DashboardSensorData" where
  "toggleZone2 prev =
     (let newZone2Status = \<not> zone2Status prev;
          newPumpStatus = (zone1Status prev \<or> newZone2Status)
      in prev\<lparr>zone2Status := newZone2Status, pumpStatus := newPumpStatus\<rparr>)"

text \<open>
  The user's clicks, and the states the component shows after each of them (every render
  is an observation point).
\<close>

datatype zone_toggle = ToggleZone1 | ToggleZone2

fun click :: "zone_toggle \<Rightarrow> DashboardSensorData \<Rightarrow> DashboardSensorData" where
  "click ToggleZone1 s = toggleZone1 s"
| "click ToggleZone2 s = toggleZone2 s"

fun observations :: "DashboardSensorData \<Rightarrow> zone_toggle list \<Rightarrow> DashboardSensorData list" where
  "observations s [] = [s]"
| "observations s (t # ts) = s # observations (click t s) ts"

text \<open>The invariant: the pump flag is the disjunction of the zone flags.\<close>

definition pump_is_or_of_zones :: "DashboardSensorData \<Rightarrow> bool" where
  "pump_is_or_of_zones s = (pumpStatus s = (zone1Status s \<or> zone2Status s))"

section \<open>Sensor normalization (DataService)\<close>

text \<open>\<^verbatim>\<open>interface SensorData\<close> of the data service: the canonical reading.\<close>

record SensorData =
  soilMoisture :: number
  temperature :: number
  humidity :: number
  tankLevel :: number
  flowRate :: number

text \<open>The external field names (\<^verbatim>\<open>FirebaseSensorFields\<close>) and the canonical keys.\<close>

datatype FirebaseSensorFields = SoilMoisture | Temperature | Humidity | TankLevel | FlowRate_LperMin

datatype SensorKey = K_soilMoisture | K_temperature | K_humidity | K_tankLevel | K_flowRate

fun field_name :: "FirebaseSensorFields \<Rightarrow> jsstring" where
  "field_name SoilMoisture = js_string ''SoilMoisture''"
| "field_name Temperature = js_string ''Temperature''"
| "field_name Humidity = js_string ''Humidity''"
| "field_name TankLevel = js_string ''TankLevel''"
| "field_name FlowRate_LperMin = js_string ''FlowRate_LperMin''"

fun mapFirebaseToSensorData :: "FirebaseSensorFields \<Rightarrow> SensorKey" where
  "mapFirebaseToSensorData SoilMoisture = K_soilMoisture"
| "mapFirebaseToSensorData Temperature = K_temperature"
| "mapFirebaseToSensorData Humidity = K_humidity"
| "mapFirebaseToSensorData TankLevel = K_tankLevel"
| "mapFirebaseToSensorData FlowRate_LperMin = K_flowRate"

definition DEFAULT_SENSOR_DATA :: SensorData where
  "DEFAULT_SENSOR_DATA =
     \<lparr>soilMoisture = Fin 0, temperature = Fin 0, humidity = Fin 0, tankLevel = Fin 0,
      flowRate = Fin 0\<rparr>"

fun sensor_field :: "SensorData \<Rightarrow> SensorKey \<Rightarrow> number" where
  "sensor_field d K_soilMoisture = soilMoisture d"
| "sensor_field d K_temperature = temperature d"
| "sensor_field d K_humidity = humidity d"
| "sensor_field d K_tankLevel = tankLevel d"
| "sensor_field d K_flowRate = flowRate d"

record ValidationRange =
  rmin :: number
  rmax :: number

fun VALIDATION_RANGES :: "SensorKey \<Rightarrow> ValidationRange" where
  "VALIDATION_RANGES K_soilMoisture = \<lparr>rmin = Fin 0, rmax = Fin 100\<rparr>"
| "VALIDATION_RANGES K_temperature = \<lparr>rmin = Fin (- 50), rmax = Fin 100\<rparr>"
| "VALIDATION_RANGES K_humidity = \<lparr>rmin = Fin 0, rmax = Fin 100\<rparr>"
| "VALIDATION_RANGES K_tankLevel = \<lparr>rmin = Fin 0, rmax = Fin 100\<rparr>"
| "VALIDATION_RANGES K_flowRate = \<lparr>rmin = Fin 0, rmax = Fin 1000\<rparr>"

text \<open>
  \<^verbatim>\<open>data[key]\<close> for one of the five field names: an object gives the stored value or
  \<^verbatim>\<open>undefined\<close>; booleans, numbers, strings and arrays have no property of these names.
\<close>

fun get_field :: "jsval \<Rightarrow> FirebaseSensorFields \<Rightarrow> js_error + jsval" where
  "get_field JUndefined _ = Inl TypeError"
| "get_field JNull _ = Inl TypeError"
| "get_field (JObject kvs) key =
     Inr (case map_of kvs (field_name key) of None \<Rightarrow> JUndefined | Some v \<Rightarrow> v)"
| "get_field _ _ = Inr JUndefined"

definition parseAndValidateSensorValue :: "jsval \<Rightarrow> FirebaseSensorFields \<Rightarrow> js_error + number" where
  "parseAndValidateSensorValue data key =
     (if \<not> truthy data then
        Inr (sensor_field DEFAULT_SENSOR_DATA (mapFirebaseToSensorData key))
      else
        case get_field data key of
          Inl e \<Rightarrow> Inl e
        | Inr v \<Rightarrow>
            if v = JNull \<or> v = JUndefined then
              Inr (sensor_field DEFAULT_SENSOR_DATA (mapFirebaseToSensorData key))
            else
              case parseFloat v of
                Inl e \<Rightarrow> Inl e
              | Inr value \<Rightarrow>
                  if isNaN value then
                    Inr (sensor_field DEFAULT_SENSOR_DATA (mapFirebaseToSensorData key))
                  else
                    let range = VALIDATION_RANGES (mapFirebaseToSensorData key) in
                    Inr (Math_max (rmin range) (Math_min (rmax range) value)))"

text \<open>
  The object literal built by \<^verbatim>\<open>handleData\<close> and by \<^verbatim>\<open>getSensorData\<close>: the five
  fields in order, the first exception ending the evaluation.
\<close>

definition build_sensor_data :: "jsval \<Rightarrow> js_error + SensorData" where
  "build_sensor_data data =
     (case parseAndValidateSensorValue data SoilMoisture of Inl e \<Rightarrow> Inl e | Inr a \<Rightarrow>
      case parseAndValidateSensorValue data Temperature of Inl e \<Rightarrow> Inl e | Inr b \<Rightarrow>
      case parseAndValidateSensorValue data Humidity of Inl e \<Rightarrow> Inl e | Inr c \<Rightarrow>
      case parseAndValidateSensorValue data TankLevel of Inl e \<Rightarrow> Inl e | Inr d \<Rightarrow>
      case parseAndValidateSensorValue data FlowRate_LperMin of Inl e \<Rightarrow> Inl e | Inr f \<Rightarrow>
      Inr \<lparr>soilMoisture = a, temperature = b, humidity = c, tankLevel = d, flowRate = f\<rparr>)"

text \<open>
  \<^verbatim>\<open>handleData\<close> of \<^verbatim>\<open>getSensorDataStream\<close>, as the record it hands to the
  callback for the snapshot value \<open>data\<close>; the \<^verbatim>\<open>catch\<close> hands over the defaults.
\<close>

definition handleData :: "jsval \<Rightarrow> SensorData" where
  "handleData data =
     (case build_sensor_data data of Inl e \<Rightarrow> DEFAULT_SENSOR_DATA | Inr sd \<Rightarrow> sd)"

text \<open>
  \<^verbatim>\<open>getSensorData\<close>: \<open>fetched\<close> is the outcome of \<^verbatim>\<open>await get(sensorsRef)\<close>, the
  snapshot value or the rejection. The result is what the promise settles to: \<open>Inl\<close> a
  rejection, \<open>Inr\<close> the resolved record.
\<close>

definition getSensorData :: "js_error + jsval \<Rightarrow> js_error + SensorData" where
  "getSensorData fetched =
     (case fetched of
        Inl e \<Rightarrow> Inr DEFAULT_SENSOR_DATA
      | Inr data \<Rightarrow>
          if \<not> truthy data then Inr DEFAULT_SENSOR_DATA
          else (case build_sensor_data data of
                  Inl e \<Rightarrow> Inr DEFAULT_SENSOR_DATA
                | Inr sd \<Rightarrow> Inr sd))"

text \<open>
  Vocabulary for the properties of the normalization: the value a raw reading holds for a
  field (\<^verbatim>\<open>undefined\<close> when the reading is absent or has no such field), a
  number lying within a range, and a reading none of whose five field values throws when
  it is converted to a string.
\<close>

definition raw_value :: "jsval \<Rightarrow> FirebaseSensorFields \<Rightarrow> jsval" where
  "raw_value data key = (case get_field data key of Inl e \<Rightarrow> JUndefined | Inr v \<Rightarrow> v)"

definition in_range :: "ValidationRange \<Rightarrow> number \<Rightarrow> bool" where
  "in_range r v = (num_le (rmin r) v \<and> num_le v (rmax r))"

definition all_fields :: "FirebaseSensorFields list" where
  "all_fields = [SoilMoisture, Temperature, Humidity, TankLevel, FlowRate_LperMin]"

definition convertible :: "jsval \<Rightarrow> bool" where
  "convertible data = list_all (\<lambda>key. \<not> to_string_throws (raw_value data key)) all_fields"

section \<open>Remote pump state (DataService)\<close>

text \<open>
  The part of the remote store these operations touch: the value at
  \<^verbatim>\<open>SmartIrrigation/Controls/Pump\<close> (\<^verbatim>\<open>null\<close> when nothing is stored) and the
  children of \<^verbatim>\<open>SmartIrrigation/Actions\<close>, each under its push key, oldest first.
\<close>

record ActionEntry =
  action :: string
  timestamp :: string
  user :: string

record Remote =
  pump :: jsval
  actions :: "(string \<times> ActionEntry) list"

text \<open>
  What one call meets: whether the write of the pump value and the write of the log entry
  go through, the key \<^verbatim>\<open>push\<close> generates, and \<^verbatim>\<open>new Date().toISOString()\<close>.
\<close>

record Transport =
  pumpWriteOk :: bool
  logWriteOk :: bool
  pushKey :: string
  isoNow :: string

text \<open>\<^verbatim>\<open>await set(ref, value)\<close>: the write happens, or the promise rejects and nothing is stored.\<close>

definition remote_set :: "bool \<Rightarrow> (Remote \<Rightarrow> Remote) \<Rightarrow> Remote \<Rightarrow> (js_error + unit) \<times> Remote" where
  "remote_set ok write db = (if ok then (Inr (), write db) else (Inl TransportError, db))"

text \<open>\<^verbatim>\<open>getPumpState\<close>: \<open>fetched\<close> is the outcome of \<^verbatim>\<open>await get(pumpRef)\<close>.\<close>

definition getPumpState :: "js_error + jsval \<Rightarrow> js_error + jsval" where
  "getPumpState fetched =
     (case fetched of
        Inl e \<Rightarrow> Inr (JString (js_string ''OFF''))
      | Inr v \<Rightarrow> Inr (if truthy v then v else JString (js_string ''OFF'')))"

text \<open>\<^verbatim>\<open>logAction\<close>: its own \<^verbatim>\<open>catch\<close> swallows a failed write.\<close>

definition logAction :: "Transport \<Rightarrow> string \<Rightarrow> Remote \<Rightarrow> (js_error + unit) \<times> Remote" where
  "logAction env act db =
     (case remote_set (logWriteOk env)
             (\<lambda>d. d\<lparr>actions := actions d @
                [(pushKey env, \<lparr>action = act, timestamp = isoNow env, user = ''web_app''\<rparr>)]\<rparr>) db of
        (Inl e, db') \<Rightarrow> (Inr (), db')
      | (Inr u, db') \<Rightarrow> (Inr (), db'))"

text \<open>The \<^verbatim>\<open>try\<close> block of \<^verbatim>\<open>setPumpState\<close>, then the function with its \<^verbatim>\<open>catch\<close>.\<close>

definition setPumpState_try :: "Transport \<Rightarrow> string \<Rightarrow> Remote \<Rightarrow> (js_error + bool) \<times> Remote" where
  "setPumpState_try env state db =
     (if state \<noteq> ''ON'' \<and> state \<noteq> ''OFF'' then
        (Inl (Error ''Pump state must be ON or OFF''), db)
      else
        case remote_set (pumpWriteOk env) (\<lambda>d. d\<lparr>pump := JString (js_string state)\<rparr>) db of
          (Inl e, db1) \<Rightarrow> (Inl e, db1)
        | (Inr u, db1) \<Rightarrow>
            (case logAction env (''Pump:'' @ state) db1 of
               (Inl e, db2) \<Rightarrow> (Inl e, db2)
             | (Inr u', db2) \<Rightarrow> (Inr True, db2)))"

definition setPumpState :: "Transport \<Rightarrow> string \<Rightarrow> Remote \<Rightarrow> (js_error + bool) \<times> Remote" where
  "setPumpState env state db =
     (case setPumpState_try env state db of
        (Inl e, db') \<Rightarrow> (Inr False, db')
      | (Inr b, db') \<Rightarrow> (Inr b, db'))"

section \<open>Authentication errors (AuthService)\<close>

text \<open>
  A value caught by the service: the provider's errors carry a code and a message, an
  \<^verbatim>\<open>Error\<close> thrown by the service itself only a message. \<open>None\<close> is \<^verbatim>\<open>undefined\<close>.
\<close>

record AuthError =
  code :: "string option"
  message :: "string option"

definition getAuthErrorMessage :: "AuthError \<Rightarrow> string" where
  "getAuthErrorMessage error =
     (let errorCode = code error in
      if errorCode = Some ''auth/user-not-found'' then
        ''No user found with this email address.''
      else if errorCode = Some ''auth/wrong-password'' then
        ''Incorrect password. Please try again.''
      else if errorCode = Some ''auth/email-already-in-use'' then
        ''An account already exists with this email address.''
      else if errorCode = Some ''auth/weak-password'' then
        ''Password is too weak. Please choose a stronger password.''
      else if errorCode = Some ''auth/invalid-email'' then
        ''Invalid email address. Please check your email.''
      else if errorCode = Some ''auth/user-disabled'' then
        ''This account has been disabled. Please contact support.''
      else if errorCode = Some ''auth/too-many-requests'' then
        ''Too many failed attempts. Please try again later.''
      else if errorCode = Some ''auth/operation-not-allowed'' then
        ''This sign-in method is not allowed. Please contact support.''
      else if errorCode = Some ''auth/invalid-credential'' then
        ''Invalid credentials. Please check your email and password.''
      else if errorCode = Some ''auth/requires-recent-login'' then
        ''Please sign in again to perform this action.''
      else
        (case message error of
           None \<Rightarrow> ''An authentication error occurred.''
         | Some m \<Rightarrow> if m = [] then ''An authentication error occurred.'' else m))"

text \<open>
  \<^verbatim>\<open>signIn\<close>, as every method of the service: what the provider rejects with is caught
  and the message is thrown in its place. \<open>outcome\<close> is the provider's result.
\<close>

definition signIn :: "AuthError + 'u \<Rightarrow> string + 'u" where
  "signIn outcome =
     (case outcome of
        Inl error \<Rightarrow> Inl (getAuthErrorMessage error)
      | Inr u \<Rightarrow> Inr u)"

text \<open>The codes the \<^verbatim>\<open>switch\<close> lists, and the messages the service words itself.\<close>

definition known_codes :: "string list" where
  "known_codes =
     [''auth/user-not-found'', ''auth/wrong-password'', ''auth/email-already-in-use'',
      ''auth/weak-password'', ''auth/invalid-email'', ''auth/user-disabled'',
      ''auth/too-many-requests'', ''auth/operation-not-allowed'', ''auth/invalid-credential'',
      ''auth/requires-recent-login'']"

definition code_messages :: "string list" where
  "code_messages =
     [''No user found with this email address.'',
      ''Incorrect password. Please try again.'',
      ''An account already exists with this email address.'',
      ''Password is too weak. Please choose a stronger password.'',
      ''Invalid email address. Please check your email.'',
      ''This account has been disabled. Please contact support.'',
      ''Too many failed attempts. Please try again later.'',
      ''This sign-in method is not allowed. Please contact support.'',
      ''Invalid credentials. Please check your email and password.'',
      ''Please sign in again to perform this action.'']"

definition catch_all_message :: string where
  "catch_all_message = ''An authentication error occurred.''"

definition auth_vocabulary :: "string list" where
  "auth_vocabulary = code_messages @ [catch_all_message]"

section \<open>Report export (Reports)\<close>

text \<open>
  One day's record. The quantities are finite doubles; pump cycles and alerts are whole
  numbers (the generator produces them with \<^verbatim>\<open>Math.floor\<close>), of a size where sums
  of them are exact.
\<close>

record ReportData =
  date :: string
  totalWaterUsed :: rat
  irrigationTime :: rat
  pumpCycles :: int
  avgSoilMoisture :: rat
  alerts :: int
  efficiency :: rat

record TotalStats =
  totalWater :: number
  totalTime :: number
  totalCycles :: int
  avgEfficiency :: number
  totalAlerts :: int

subsection \<open>Numbers as text\<close>

text \<open>
  The decimal digits of a natural number, and a whole number as a template literal or
  \<^verbatim>\<open>join\<close> prints it (for magnitudes below \<open>10 ^ 21\<close>).
\<close>

fun digits_of_nat :: "nat \<Rightarrow> string" where
  "digits_of_nat n =
     (if n < 10 then [''0123456789'' ! n]
      else digits_of_nat (n div 10) @ [''0123456789'' ! (n mod 10)])"

declare digits_of_nat.simps [simp del]

definition int_to_string :: "int \<Rightarrow> string" where
  "int_to_string i = (if i < 0 then ''-'' @ digits_of_nat (nat (- i)) else digits_of_nat (nat i))"

text \<open>
  \<^verbatim>\<open>Number.prototype.toFixed\<close>: the sign, then the integer nearest to the magnitude
  times \<open>10 ^ f\<close> (the larger one on a tie), padded with zeros to more than \<open>f\<close> digits,
  with the point before the last \<open>f\<close> digits. This is the rendering for magnitudes below
  \<open>10 ^ 21\<close>; beyond that JavaScript switches to exponent notation, which is not modelled.
\<close>

definition toFixed :: "nat \<Rightarrow> rat \<Rightarrow> string" where
  "toFixed f x =
     (let n = nat \<lfloor>\<bar>x\<bar> * 10 ^ f + 1 / 2\<rfloor>;
          m = digits_of_nat n;
          z = replicate (f + 1 - length m) (CHR ''0'') @ m;
          k = length z
      in (if x < 0 then ''-'' else []) @
         (if f = 0 then m else take (k - f) z @ ''.'' @ drop (k - f) z))"

definition toFixed_number :: "nat \<Rightarrow> number \<Rightarrow> string" where
  "toFixed_number f v =
     (case v of
        NaN \<Rightarrow> ''NaN''
      | PosInf \<Rightarrow> ''Infinity''
      | NegInf \<Rightarrow> ''-Infinity''
      | Fin q \<Rightarrow> toFixed f q)"

text \<open>
  Arithmetic on doubles. A sum and a quotient are the doubles nearest to the exact result;
  a remainder \<^verbatim>\<open>a % b\<close> is exact and has the sign of \<open>a\<close>. The divisors in this code
  (a list length and 60) are finite and not negative.
\<close>

fun num_add :: "number \<Rightarrow> number \<Rightarrow> number" where
  "num_add (Fin a) (Fin b) = round_double (a + b)"
| "num_add NaN _ = NaN"
| "num_add _ NaN = NaN"
| "num_add PosInf NegInf = NaN"
| "num_add NegInf PosInf = NaN"
| "num_add PosInf _ = PosInf"
| "num_add _ PosInf = PosInf"
| "num_add NegInf _ = NegInf"
| "num_add _ NegInf = NegInf"

definition num_div :: "number \<Rightarrow> rat \<Rightarrow> number" where
  "num_div a b =
     (case a of
        NaN \<Rightarrow> NaN
      | PosInf \<Rightarrow> PosInf
      | NegInf \<Rightarrow> NegInf
      | Fin x \<Rightarrow>
          if b = 0 then (if x = 0 then NaN else if 0 < x then PosInf else NegInf)
          else round_double (x / b))"

definition js_rem :: "rat \<Rightarrow> rat \<Rightarrow> rat" where
  "js_rem a b =
     a - b * of_int (if a / b < 0 then \<lceil>a / b\<rceil> else \<lfloor>a / b\<rfloor>)"

definition num_rem :: "number \<Rightarrow> rat \<Rightarrow> number" where
  "num_rem a b =
     (case a of
        Fin x \<Rightarrow> if b = 0 then NaN else Fin (js_rem x b)
      | _ \<Rightarrow> NaN)"

definition Math_floor :: "number \<Rightarrow> number" where
  "Math_floor v = (case v of Fin q \<Rightarrow> Fin (of_int \<lfloor>q\<rfloor>) | _ \<Rightarrow> v)"

text \<open>A number whose value is whole (or not finite), as a template literal prints it.\<close>

definition number_to_string :: "number \<Rightarrow> string" where
  "number_to_string v =
     (case v of
        NaN \<Rightarrow> ''NaN''
      | PosInf \<Rightarrow> ''Infinity''
      | NegInf \<Rightarrow> ''-Infinity''
      | Fin q \<Rightarrow> int_to_string \<lfloor>q\<rfloor>)"

text \<open>\<^verbatim>\<open>Array.prototype.join\<close> on strings.\<close>

fun join :: "string \<Rightarrow> string list \<Rightarrow> string" where
  "join sep [] = []"
| "join sep [x] = x"
| "join sep (x # y # zs) = x @ sep @ join sep (y # zs)"

subsection \<open>The dataset and its summary\<close>

definition getCurrentData :: "string \<Rightarrow> ReportData list \<Rightarrow> ReportData list \<Rightarrow> ReportData list" where
  "getCurrentData reportType dailyReports weeklyReports =
     (if reportType = ''daily'' then dailyReports else weeklyReports)"

definition getTotalStats :: "ReportData list \<Rightarrow> TotalStats" where
  "getTotalStats data =
     \<lparr>totalWater = foldl (\<lambda>sum item. num_add sum (Fin (totalWaterUsed item))) (Fin 0) data,
      totalTime = foldl (\<lambda>sum item. num_add sum (Fin (irrigationTime item))) (Fin 0) data,
      totalCycles = foldl (\<lambda>sum item. sum + pumpCycles item) 0 data,
      avgEfficiency =
        num_div (foldl (\<lambda>sum item. num_add sum (Fin (efficiency item))) (Fin 0) data)
          (of_nat (length data)),
      totalAlerts = foldl (\<lambda>sum item. sum + alerts item) 0 data\<rparr>"

subsection \<open>The three encodings\<close>

text \<open>What an export hands to the browser: the blob's text and type, and the file name.\<close>

record download =
  content :: string
  mime :: string
  filename :: string

text \<open>\<^verbatim>\<open>date.replace(/\//g, '-')\<close>\<close>

definition dashed :: "string \<Rightarrow> string" where
  "dashed d = map (\<lambda>c. if c = CHR ''/'' then CHR ''-'' else c) d"

definition exportToCSV :: "string \<Rightarrow> ReportData list \<Rightarrow> TotalStats \<Rightarrow> string \<Rightarrow> download" where
  "exportToCSV reportType data stats currentDate =
     (let headers = [''Date'', ''Water Used (L)'', ''Runtime (min)'', ''Pump Cycles'',
                     ''Avg Soil Moisture (%)'', ''Alerts'', ''Efficiency (%)''];
          csvContent =
            join [CHR 0x0A]
              (join '','' headers #
               map (\<lambda>row. join '',''
                      [date row,
                       toFixed 2 (totalWaterUsed row),
                       toFixed 1 (irrigationTime row),
                       int_to_string (pumpCycles row),
                       toFixed 1 (avgSoilMoisture row),
                       int_to_string (alerts row),
                       toFixed 1 (efficiency row)]) data)
      in \<lparr>content = csvContent, mime = ''text/csv;charset=utf-8;'',
          filename = ''AgroSmart_'' @ reportType @ ''_Report_'' @ dashed currentDate @ ''.csv''\<rparr>)"

definition exportToExcel :: "string \<Rightarrow> ReportData list \<Rightarrow> TotalStats \<Rightarrow> string \<Rightarrow> download" where
  "exportToExcel reportType data stats currentDate =
     (let headers = [''Date'', ''Water Used (L)'', ''Runtime (min)'', ''Pump Cycles'',
                     ''Avg Soil Moisture (%)'', ''Alerts'', ''Efficiency (%)''];
          csvContent =
            join [CHR 0x0A]
              (''AgroSmart Irrigation Report'' #
               (''Generated: '' @ currentDate) #
               (''Report Type: '' @ (if reportType = ''daily'' then ''Daily'' else ''Weekly'') @ '' Report'') #
               (''Total Water: '' @ toFixed_number 1 (totalWater stats) @ ''L'') #
               (''Total Runtime: '' @ number_to_string (Math_floor (num_div (totalTime stats) 60)) @
                  ''h '' @ number_to_string (Math_floor (num_rem (totalTime stats) 60)) @ ''m'') #
               (''Total Cycles: '' @ int_to_string (totalCycles stats)) #
               (''Average Efficiency: '' @ toFixed_number 1 (avgEfficiency stats) @ ''%'') #
               (''Total Alerts: '' @ int_to_string (totalAlerts stats)) #
               [] #
               join '','' headers #
               map (\<lambda>row. join '',''
                      [date row,
                       toFixed 2 (totalWaterUsed row),
                       toFixed 1 (irrigationTime row),
                       int_to_string (pumpCycles row),
                       toFixed 1 (avgSoilMoisture row),
                       int_to_string (alerts row),
                       toFixed 1 (efficiency row)]) data)
      in \<lparr>content = csvContent, mime = ''text/csv;charset=utf-8;'',
          filename = ''AgroSmart_'' @ reportType @ ''_Report_'' @ dashed currentDate @ ''.xlsx''\<rparr>)"

text \<open>
  The template of \<^verbatim>\<open>exportToPDF\<close> in its three parts: the text before the table rows,
  the inner template of one row, and the text after the rows.
\<close>

definition html_head :: "string \<Rightarrow> TotalStats \<Rightarrow> string \<Rightarrow> string" where
  "html_head reportType stats currentDate =
     ''
      <!DOCTYPE html>
      <html>
      <head>
        <title>AgroSmart Irrigation Report</title>
        <style>
          body { font-family: Arial, sans-serif; margin: 20px; }
          .header { text-align: center; margin-bottom: 30px; }
          .title { font-size: 24px; font-weight: bold; color: #2d5a27; }
          .subtitle { font-size: 16px; color: #666; margin-top: 10px; }
          .summary { background: #f5f5f5; padding: 15px; border-radius: 5px; margin-bottom: 20px; }
          .summary h3 { margin-top: 0; color: #2d5a27; }
          .summary-grid { display: grid; grid-template-columns: repeat(auto-fit, minmax(200px, 1fr)); gap: 15px; }
          .summary-item { text-align: center; }
          .summary-value { font-size: 20px; font-weight: bold; color: #2d5a27; }
          .summary-label { font-size: 12px; color: #666; margin-top: 5px; }
          table { width: 100%; border-collapse: collapse; margin-top: 20px; }
          th, td { border: 1px solid #ddd; padding: 8px; text-align: left; }
          th { background-color: #2d5a27; color: white; }
          tr:nth-child(even) { background-color: #f9f9f9; }
          .footer { margin-top: 30px; text-align: center; font-size: 12px; color: #666; }
        </style>
      </head>
      <body>
        <div class=\"header\">
          <div class=\"title\">AgroSmart Irrigation Report</div>
          <div class=\"subtitle\">Generated on '' @
     currentDate @
     ''</div>
          <div class=\"subtitle\">'' @
     (if reportType = ''daily'' then ''Daily'' else ''Weekly'') @
     '' Report</div>
        </div>
        
        <div class=\"summary\">
          <h3>Summary Statistics</h3>
          <div class=\"summary-grid\">
            <div class=\"summary-item\">
              <div class=\"summary-value\">'' @
     toFixed_number 1 (totalWater stats) @
     ''L</div>
              <div class=\"summary-label\">Total Water Used</div>
            </div>
            <div class=\"summary-item\">
              <div class=\"summary-value\">'' @
     number_to_string (Math_floor (num_div (totalTime stats) 60)) @
     ''h '' @
     number_to_string (Math_floor (num_rem (totalTime stats) 60)) @
     ''m</div>
              <div class=\"summary-label\">Total Runtime</div>
            </div>
            <div class=\"summary-item\">
              <div class=\"summary-value\">'' @
     int_to_string (totalCycles stats) @
     ''</div>
              <div class=\"summary-label\">Pump Cycles</div>
            </div>
            <div class=\"summary-item\">
              <div class=\"summary-value\">'' @
     toFixed_number 1 (avgEfficiency stats) @
     ''%</div>
              <div class=\"summary-label\">Avg Efficiency</div>
            </div>
            <div class=\"summary-item\">
              <div class=\"summary-value\">'' @
     int_to_string (totalAlerts stats) @
     ''</div>
              <div class=\"summary-label\">Total Alerts</div>
            </div>
          </div>
        </div>
        
        <table>
          <thead>
            <tr>
              <th>Date</th>
              <th>Water Used (L)</th>
              <th>Runtime (min)</th>
              <th>Pump Cycles</th>
              <th>Avg Soil Moisture (%)</th>
              <th>Alerts</th>
              <th>Efficiency (%)</th>
            </tr>
          </thead>
          <tbody>
            ''"

definition html_row :: "ReportData \<Rightarrow> string" where
  "html_row row =
     ''
              <tr>
                <td>'' @
     date row @
     ''</td>
                <td>'' @
     toFixed 2 (totalWaterUsed row) @
     ''</td>
                <td>'' @
     toFixed 1 (irrigationTime row) @
     ''</td>
                <td>'' @
     int_to_string (pumpCycles row) @
     ''</td>
                <td>'' @
     toFixed 1 (avgSoilMoisture row) @
     ''</td>
                <td>'' @
     int_to_string (alerts row) @
     ''</td>
                <td>'' @
     toFixed 1 (efficiency row) @
     ''</td>
              </tr>
            ''"

definition html_tail :: string where
  "html_tail =
     ''
          </tbody>
        </table>
        
        <div class=\"footer\">
          <p>Generated by AgroSmart Smart Irrigation Management System</p>
          <p>For more information, visit the AgroSmart dashboard</p>
        </div>
      </body>
      </html>
    ''"

definition exportToPDF :: "string \<Rightarrow> ReportData list \<Rightarrow> TotalStats \<Rightarrow> string \<Rightarrow> download" where
  "exportToPDF reportType data stats currentDate =
     (let htmlContent =
            html_head reportType stats currentDate @ concat (map html_row data) @ html_tail
      in \<lparr>content = htmlContent, mime = ''text/html'',
          filename = ''AgroSmart_'' @ reportType @ ''_Report_'' @ dashed currentDate @ ''.html''\<rparr>)"

text \<open>
  \<^verbatim>\<open>exportReport\<close>: the dataset is the one the report type selects, the summary is
  computed from it, and \<open>currentDate\<close> is \<^verbatim>\<open>new Date().toLocaleDateString()\<close>. The
  result is the download the chosen export starts; the toast that follows is left out.
\<close>

datatype export_format = Pdf | Csv | Excel

definition exportReport ::
  "export_format \<Rightarrow> string \<Rightarrow> ReportData list \<Rightarrow> ReportData list \<Rightarrow> string \<Rightarrow> download" where
  "exportReport format reportType dailyReports weeklyReports currentDate =
     (let data = getCurrentData reportType dailyReports weeklyReports;
          stats = getTotalStats data
      in case format of
           Csv \<Rightarrow> exportToCSV reportType data stats currentDate
         | Excel \<Rightarrow> exportToExcel reportType data stats currentDate
         | Pdf \<Rightarrow> exportToPDF reportType data stats currentDate)"

text \<open>
  Vocabulary for the properties of the exports: the seven column titles, the seven cells
  of a record's row, a table row of the hypertext document, and the five summary figures
  as they are printed.
\<close>

definition table_columns :: "string list" where
  "table_columns =
     [''Date'', ''Water Used (L)'', ''Runtime (min)'', ''Pump Cycles'',
      ''Avg Soil Moisture (%)'', ''Alerts'', ''Efficiency (%)'']"

definition row_cells :: "ReportData \<Rightarrow> string list" where
  "row_cells r =
     [date r, toFixed 2 (totalWaterUsed r), toFixed 1 (irrigationTime r),
      int_to_string (pumpCycles r), toFixed 1 (avgSoilMoisture r), int_to_string (alerts r),
      toFixed 1 (efficiency r)]"

definition summary_figures :: "TotalStats \<Rightarrow> string list" where
  "summary_figures stats =
     [toFixed_number 1 (totalWater stats) @ ''L'',
      number_to_string (Math_floor (num_div (totalTime stats) 60)) @ ''h '' @
        number_to_string (Math_floor (num_rem (totalTime stats) 60)) @ ''m'',
      int_to_string (totalCycles stats),
      toFixed_number 1 (avgEfficiency stats) @ ''%'',
      int_to_string (totalAlerts stats)]"

text \<open>
  The hypertext document's markup around the variable parts: a summary item (a figure over
  its label), a column title cell, a table row, and the five stretches of fixed text before
  the date, between date and report type, up to the summary items, up to the column
  titles, and up to the rows.
\<close>

definition html_labels :: "string list" where
  "html_labels =
     [''Total Water Used'', ''Total Runtime'', ''Pump Cycles'', ''Avg Efficiency'',
      ''Total Alerts'']"

definition html_summary_item :: "string \<times> string \<Rightarrow> string" where
  "html_summary_item item =
     ''
            <div class=\"summary-item\">
              <div class=\"summary-value\">'' @ fst item @ ''</div>
              <div class=\"summary-label\">'' @ snd item @ ''</div>
            </div>''"

definition html_th :: "string \<Rightarrow> string" where
  "html_th title = ''
              <th>'' @ title @ ''</th>''"

definition html_fixed1 :: string where
  "html_fixed1 =
     ''
      <!DOCTYPE html>
      <html>
      <head>
        <title>AgroSmart Irrigation Report</title>
        <style>
          body { font-family: Arial, sans-serif; margin: 20px; }
          .header { text-align: center; margin-bottom: 30px; }
          .title { font-size: 24px; font-weight: bold; color: #2d5a27; }
          .subtitle { font-size: 16px; color: #666; margin-top: 10px; }
          .summary { background: #f5f5f5; padding: 15px; border-radius: 5px; margin-bottom: 20px; }
          .summary h3 { margin-top: 0; color: #2d5a27; }
          .summary-grid { display: grid; grid-template-columns: repeat(auto-fit, minmax(200px, 1fr)); gap: 15px; }
          .summary-item { text-align: center; }
          .summary-value { font-size: 20px; font-weight: bold; color: #2d5a27; }
          .summary-label { font-size: 12px; color: #666; margin-top: 5px; }
          table { width: 100%; border-collapse: collapse; margin-top: 20px; }
          th, td { border: 1px solid #ddd; padding: 8px; text-align: left; }
          th { background-color: #2d5a27; color: white; }
          tr:nth-child(even) { background-color: #f9f9f9; }
          .footer { margin-top: 30px; text-align: center; font-size: 12px; color: #666; }
        </style>
      </head>
      <body>
        <div class=\"header\">
          <div class=\"title\">AgroSmart Irrigation Report</div>
          <div class=\"subtitle\">Generated on ''"

definition html_fixed2 :: string where
  "html_fixed2 =
     ''</div>
          <div class=\"subtitle\">''"

definition html_fixed3 :: string where
  "html_fixed3 =
     '' Report</div>
        </div>
        
        <div class=\"summary\">
          <h3>Summary Statistics</h3>
          <div class=\"summary-grid\">''"

definition html_fixed4 :: string where
  "html_fixed4 =
     ''
          </div>
        </div>
        
        <table>
          <thead>
            <tr>''"

definition html_fixed5 :: string where
  "html_fixed5 =
     ''
            </tr>
          </thead>
          <tbody>
            ''"

definition html_tr :: "string list \<Rightarrow> string" where
  "html_tr cells =
     ''
              <tr>'' @
     concat (map (\<lambda>c. ''
                <td>'' @ c @ ''</td>'') cells) @ ''
              </tr>
            ''"

text \<open>An example dataset of two days.\<close>

definition sample_reports :: "ReportData list" where
  "sample_reports =
     [\<lparr>date = ''2025-01-01'', totalWaterUsed = 51 / 2, irrigationTime = 45, pumpCycles = 3,
       avgSoilMoisture = 60, alerts = 1, efficiency = 80\<rparr>,
      \<lparr>date = ''2025-01-02'', totalWaterUsed = 121 / 4, irrigationTime = 181 / 2, pumpCycles = 5,
       avgSoilMoisture = 131 / 2, alerts = 0, efficiency = 90\<rparr>]"

section \<open>Properties\<close>

subsection \<open>Evaluation on literals\<close>

lemma floor_rat_numeral: "\<lfloor>numeral a / numeral b :: rat\<rfloor> = numeral a div numeral b"
  by (metis floor_divide_of_int_eq of_int_numeral)

lemma floor_rat_one: "\<lfloor>1 / numeral b :: rat\<rfloor> = 1 div numeral b"
  by (metis floor_divide_of_int_eq of_int_numeral of_int_1)

lemma bit_length_zero: "bit_length 0 = 0"
  by (simp add: bit_length.simps)

lemma bit_length_pos: "n \<noteq> 0 \<Longrightarrow> bit_length n = Suc (bit_length (n div 2))"
  by (subst bit_length.simps) simp

text \<open>The facts that evaluate rounding and \<^verbatim>\<open>parseFloat\<close> on a literal.\<close>

lemmas round_eval = round_double_def ilog2_def pow2_def round_half_even_def bit_length_zero
  bit_length_pos floor_rat_numeral floor_rat_one Let_def

lemmas parse_eval = parseFloat_def parseFloat_string_def unsigned_literal_def is_space_def
  is_digit_def digits_val_def digit_val_def pow10_def exponent_part_def negate_def
  js_string_def unit_of_def

subsection \<open>Zones and pump\<close>

lemma click_establishes: "pump_is_or_of_zones (click t s)"
  by (cases t) (auto simp: pump_is_or_of_zones_def toggleZone1_def toggleZone2_def Let_def)

lemma observations_invariant:
  "pump_is_or_of_zones s \<Longrightarrow> list_all pump_is_or_of_zones (observations s ts)"
  by (induction ts arbitrary: s) (simp_all add: click_establishes)

text \<open>
  Claim C1. Starting from the initial state (both zones off, pump off), after every sequence
  of zone toggles the pump flag equals the disjunction of the two zone flags, at the initial
  render and after each toggle; and the four toggles zone 1, zone 2, zone 1, zone 2 pass
  through the states (zone 1, zone 2, pump) = (on, off, on), (on, on, on), (off, on, on),
  (off, off, off).
\<close>

theorem C1_pump_follows_zones:
  "list_all pump_is_or_of_zones (observations (initialSensorData now) ts) \<and>
   map (\<lambda>s. (zone1Status s, zone2Status s, pumpStatus s))
     (observations (initialSensorData now) [ToggleZone1, ToggleZone2, ToggleZone1, ToggleZone2]) =
   [(False, False, False), (True, False, True), (True, True, True), (False, True, True), (False, False, False)]"
proof
  have "pump_is_or_of_zones (initialSensorData now)"
    by (simp add: pump_is_or_of_zones_def initialSensorData_def)
  then show "list_all pump_is_or_of_zones (observations (initialSensorData now) ts)"
    by (rule observations_invariant)
next
  show "map (\<lambda>s. (zone1Status s, zone2Status s, pumpStatus s))
     (observations (initialSensorData now) [ToggleZone1, ToggleZone2, ToggleZone1, ToggleZone2]) =
   [(False, False, False), (True, False, True), (True, True, True), (False, True, True), (False, False, False)]"
    by (simp add: initialSensorData_def toggleZone1_def toggleZone2_def Let_def)
qed

subsection \<open>Normalization\<close>

lemma falsy_raw_value: "\<not> truthy data \<Longrightarrow> raw_value data key = JUndefined"
  by (cases data) (simp_all add: raw_value_def)

lemma get_field_truthy: "truthy data \<Longrightarrow> get_field data key = Inr (raw_value data key)"
  by (cases data) (simp_all add: raw_value_def)

lemma default_zero: "sensor_field DEFAULT_SENSOR_DATA k = Fin 0"
  by (cases k) (simp_all add: DEFAULT_SENSOR_DATA_def)

text \<open>The helper in closed form: it throws exactly when the field's value does not convert.\<close>

lemma parseAndValidate_eq:
  "parseAndValidateSensorValue data key =
     (if to_string_throws (raw_value data key) then Inl TypeError
      else Inr (if read_number (raw_value data key) = NaN then Fin 0
                else Math_max (rmin (VALIDATION_RANGES (mapFirebaseToSensorData key)))
                       (Math_min (rmax (VALIDATION_RANGES (mapFirebaseToSensorData key)))
                          (read_number (raw_value data key)))))"
proof (cases "truthy data")
  case False
  then show ?thesis
    by (simp add: parseAndValidateSensorValue_def falsy_raw_value default_zero)
next
  case True
  then show ?thesis
    by (auto simp: parseAndValidateSensorValue_def get_field_truthy default_zero isNaN_def
        parseFloat_def Let_def)
qed

lemma clamp_result:
  assumes "v \<noteq> NaN"
  shows "\<exists>q. Math_max (Fin lo) (Math_min (Fin hi) v) = Fin q \<and> (lo \<le> hi \<longrightarrow> lo \<le> q \<and> q \<le> hi)"
  using assms by (cases v) (auto simp: Math_max_def Math_min_def)

lemma ranges_finite:
  "\<exists>lo hi. VALIDATION_RANGES k = \<lparr>rmin = Fin lo, rmax = Fin hi\<rparr> \<and> lo \<le> 0 \<and> 0 \<le> hi"
  by (cases k) simp_all

lemma normalized_in_range:
  assumes "parseAndValidateSensorValue data key = Inr v"
  shows "in_range (VALIDATION_RANGES (mapFirebaseToSensorData key)) v"
proof -
  obtain lo hi where r: "VALIDATION_RANGES (mapFirebaseToSensorData key) = \<lparr>rmin = Fin lo, rmax = Fin hi\<rparr>"
    and b: "lo \<le> 0" "0 \<le> hi"
    using ranges_finite by blast
  show ?thesis
  proof (cases "read_number (raw_value data key) = NaN")
    case True
    with assms show ?thesis using b
      by (auto simp: parseAndValidate_eq in_range_def r split: if_splits)
  next
    case False
    from clamp_result [OF False, of lo hi] b obtain q
      where q: "Math_max (Fin lo) (Math_min (Fin hi) (read_number (raw_value data key))) = Fin q"
        and "lo \<le> q" "q \<le> hi"
      by auto
    moreover from assms False have "v = Fin q"
      by (simp add: parseAndValidate_eq r q split: if_splits)
    ultimately show ?thesis
      by (simp add: in_range_def r)
  qed
qed

lemma convertible_field: "convertible data \<Longrightarrow> \<not> to_string_throws (raw_value data key)"
  by (cases key) (simp_all add: convertible_def all_fields_def)

lemma not_convertible_field: "\<not> convertible data \<Longrightarrow> \<exists>key. to_string_throws (raw_value data key)"
  by (auto simp: convertible_def all_fields_def)

lemma build_sensor_data_throws:
  assumes "to_string_throws (raw_value data key)"
  shows "build_sensor_data data = Inl TypeError"
  using assms by (cases key) (simp_all add: build_sensor_data_def parseAndValidate_eq)

lemma handleData_throws:
  "to_string_throws (raw_value data key) \<Longrightarrow> handleData data = DEFAULT_SENSOR_DATA"
  by (simp add: handleData_def build_sensor_data_throws)

lemma handleData_field:
  assumes "convertible data"
  shows "parseAndValidateSensorValue data key =
           Inr (sensor_field (handleData data) (mapFirebaseToSensorData key))"
proof -
  have "\<not> to_string_throws (raw_value data k)" for k
    using assms by (rule convertible_field)
  then show ?thesis
    by (cases key) (simp_all add: handleData_def build_sensor_data_def parseAndValidate_eq)
qed

lemma map_key_surj: "\<exists>key. mapFirebaseToSensorData key = k"
  by (cases k) (auto intro: mapFirebaseToSensorData.simps)

lemma handleData_in_range: "in_range (VALIDATION_RANGES k) (sensor_field (handleData data) k)"
proof (cases "convertible data")
  case True
  obtain key where k: "mapFirebaseToSensorData key = k"
    using map_key_surj by blast
  from handleData_field [OF True, of key] normalized_in_range [of data key]
  show ?thesis by (simp add: k)
next
  case False
  then obtain key where "to_string_throws (raw_value data key)"
    using not_convertible_field by blast
  then have "handleData data = DEFAULT_SENSOR_DATA"
    by (rule handleData_throws)
  moreover obtain lo hi where "VALIDATION_RANGES k = \<lparr>rmin = Fin lo, rmax = Fin hi\<rparr>"
    "lo \<le> 0" "0 \<le> hi"
    using ranges_finite by blast
  ultimately show ?thesis
    by (simp add: default_zero in_range_def)
qed

lemma getSensorData_eq: "getSensorData (Inr data) = Inr (handleData data)"
proof (cases "truthy data")
  case True
  then show ?thesis
    by (simp add: getSensorData_def handleData_def split: sum.split)
next
  case False
  then have "raw_value data key = JUndefined" for key
    by (rule falsy_raw_value)
  then have "build_sensor_data data = Inr DEFAULT_SENSOR_DATA"
    by (simp add: build_sensor_data_def parseAndValidate_eq DEFAULT_SENSOR_DATA_def)
  with False show ?thesis
    by (simp add: getSensorData_def handleData_def)
qed




text \<open>
  A soil moisture of "150" next to a temperature that cannot be converted to a string: the
  exception is caught, the default record is handed over, and the soil moisture is 0, not
  the upper bound 100.
\<close>

theorem C3_throwing_field_counterexample:
  "parseFloat (raw_value (JObject [(js_string ''SoilMoisture'', JString (js_string ''150'')),
        (js_string ''Temperature'', JObject [(js_string ''toString'', JString (js_string ''x''))])])
      SoilMoisture) = Inr (Fin 150) \<and>
   sensor_field (handleData (JObject [(js_string ''SoilMoisture'', JString (js_string ''150'')),
        (js_string ''Temperature'', JObject [(js_string ''toString'', JString (js_string ''x''))])]))
      K_soilMoisture = Fin 0"
  by (simp add: handleData_def build_sensor_data_def parseAndValidateSensorValue_def raw_value_def
      parse_eval round_eval DEFAULT_SENSOR_DATA_def isNaN_def Math_min_def Math_max_def)

text \<open>
  Claim C3, as the code has it. Every field of every record handed over lies within the
  field's declared range (soil moisture 0 to 100, temperature -50 to 100, humidity 0 to
  100, tank level 0 to 100, flow rate 0 to 1000). When none of the five raw values of the
  reading throws on conversion to a string, a raw value that parses to a number above the
  range gives the upper bound in the record, one that parses to a number below the range
  gives the lower bound, and one that parses to a number within the range gives that
  number. When one of the five raw values throws, the record is the default record.
\<close>

theorem C3_clamped:
  "(\<forall>k. in_range (VALIDATION_RANGES k) (sensor_field (handleData data) k)) \<and>
   (convertible data \<and> parseFloat (raw_value data key) = Inr n \<and> n \<noteq> NaN \<and>
    \<not> num_le n (rmax (VALIDATION_RANGES (mapFirebaseToSensorData key))) \<longrightarrow>
    sensor_field (handleData data) (mapFirebaseToSensorData key) =
      rmax (VALIDATION_RANGES (mapFirebaseToSensorData key))) \<and>
   (convertible data \<and> parseFloat (raw_value data key) = Inr n \<and> n \<noteq> NaN \<and>
    \<not> num_le (rmin (VALIDATION_RANGES (mapFirebaseToSensorData key))) n \<longrightarrow>
    sensor_field (handleData data) (mapFirebaseToSensorData key) =
      rmin (VALIDATION_RANGES (mapFirebaseToSensorData key))) \<and>
   (convertible data \<and> parseFloat (raw_value data key) = Inr n \<and>
    in_range (VALIDATION_RANGES (mapFirebaseToSensorData key)) n \<longrightarrow>
    sensor_field (handleData data) (mapFirebaseToSensorData key) = n) \<and>
   (\<not> convertible data \<longrightarrow> handleData data = DEFAULT_SENSOR_DATA)"
proof -
  obtain lo hi where r: "VALIDATION_RANGES (mapFirebaseToSensorData key) = \<lparr>rmin = Fin lo, rmax = Fin hi\<rparr>"
    and b: "lo \<le> 0" "0 \<le> hi"
    using ranges_finite by blast
  have field: "sensor_field (handleData data) (mapFirebaseToSensorData key) =
      (if n = NaN then Fin 0 else Math_max (Fin lo) (Math_min (Fin hi) n))"
    if "convertible data" "parseFloat (raw_value data key) = Inr n"
  proof -
    from that(2) have "\<not> to_string_throws (raw_value data key)" "read_number (raw_value data key) = n"
      by (auto simp: parseFloat_def split: if_splits)
    then have "parseAndValidateSensorValue data key =
        Inr (if n = NaN then Fin 0 else Math_max (Fin lo) (Math_min (Fin hi) n))"
      by (simp add: parseAndValidate_eq r)
    with handleData_field [OF that(1), of key] show ?thesis
      by simp
  qed
  show ?thesis
  proof (intro conjI impI allI)
    fix k show "in_range (VALIDATION_RANGES k) (sensor_field (handleData data) k)"
      by (rule handleData_in_range)
  next
    assume "convertible data \<and> parseFloat (raw_value data key) = Inr n \<and> n \<noteq> NaN \<and>
      \<not> num_le n (rmax (VALIDATION_RANGES (mapFirebaseToSensorData key)))"
    then show "sensor_field (handleData data) (mapFirebaseToSensorData key) =
      rmax (VALIDATION_RANGES (mapFirebaseToSensorData key))"
      using b by (cases n) (auto simp: field r Math_max_def Math_min_def)
  next
    assume "convertible data \<and> parseFloat (raw_value data key) = Inr n \<and> n \<noteq> NaN \<and>
      \<not> num_le (rmin (VALIDATION_RANGES (mapFirebaseToSensorData key))) n"
    then show "sensor_field (handleData data) (mapFirebaseToSensorData key) =
      rmin (VALIDATION_RANGES (mapFirebaseToSensorData key))"
      using b by (cases n) (auto simp: field r Math_max_def Math_min_def)
  next
    assume "convertible data \<and> parseFloat (raw_value data key) = Inr n \<and>
      in_range (VALIDATION_RANGES (mapFirebaseToSensorData key)) n"
    then show "sensor_field (handleData data) (mapFirebaseToSensorData key) = n"
      by (cases n) (auto simp: field r in_range_def Math_max_def Math_min_def)
  next
    assume "\<not> convertible data"
    then obtain k where "to_string_throws (raw_value data k)"
      using not_convertible_field by blast
    then show "handleData data = DEFAULT_SENSOR_DATA"
      by (rule handleData_throws)
  qed
qed

text \<open>
  A soil moisture of 150 becomes 100, a temperature of -60 becomes -50, a humidity of 55.5
  stays; with an unconvertible temperature the record is the default one.
\<close>

theorem C3_clamped_witness:
  "convertible (JObject [(js_string ''SoilMoisture'', JString (js_string ''150'')),
        (js_string ''Temperature'', JNumber (Fin (- 60))),
        (js_string ''Humidity'', JString (js_string ''55.5''))]) \<and>
   parseFloat (raw_value (JObject [(js_string ''SoilMoisture'', JString (js_string ''150'')),
        (js_string ''Temperature'', JNumber (Fin (- 60))),
        (js_string ''Humidity'', JString (js_string ''55.5''))]) SoilMoisture) = Inr (Fin 150) \<and>
   sensor_field (handleData (JObject [(js_string ''SoilMoisture'', JString (js_string ''150'')),
        (js_string ''Temperature'', JNumber (Fin (- 60))),
        (js_string ''Humidity'', JString (js_string ''55.5''))])) K_soilMoisture = Fin 100 \<and>
   parseFloat (raw_value (JObject [(js_string ''SoilMoisture'', JString (js_string ''150'')),
        (js_string ''Temperature'', JNumber (Fin (- 60))),
        (js_string ''Humidity'', JString (js_string ''55.5''))]) Temperature) = Inr (Fin (- 60)) \<and>
   sensor_field (handleData (JObject [(js_string ''SoilMoisture'', JString (js_string ''150'')),
        (js_string ''Temperature'', JNumber (Fin (- 60))),
        (js_string ''Humidity'', JString (js_string ''55.5''))])) K_temperature = Fin (- 50) \<and>
   parseFloat (raw_value (JObject [(js_string ''SoilMoisture'', JString (js_string ''150'')),
        (js_string ''Temperature'', JNumber (Fin (- 60))),
        (js_string ''Humidity'', JString (js_string ''55.5''))]) Humidity) = Inr (Fin (111 / 2)) \<and>
   sensor_field (handleData (JObject [(js_string ''SoilMoisture'', JString (js_string ''150'')),
        (js_string ''Temperature'', JNumber (Fin (- 60))),
        (js_string ''Humidity'', JString (js_string ''55.5''))])) K_humidity = Fin (111 / 2) \<and>
   \<not> convertible (JObject [(js_string ''SoilMoisture'', JString (js_string ''150'')),
        (js_string ''Temperature'', JObject [(js_string ''toString'', JString (js_string ''x''))])]) \<and>
   handleData (JObject [(js_string ''SoilMoisture'', JString (js_string ''150'')),
        (js_string ''Temperature'', JObject [(js_string ''toString'', JString (js_string ''x''))])]) =
     DEFAULT_SENSOR_DATA"
  using
    C3_clamped [of "JObject [(js_string ''SoilMoisture'', JString (js_string ''150'')),
        (js_string ''Temperature'', JNumber (Fin (- 60))),
        (js_string ''Humidity'', JString (js_string ''55.5''))]" SoilMoisture "Fin 150"]
    C3_clamped [of "JObject [(js_string ''SoilMoisture'', JString (js_string ''150'')),
        (js_string ''Temperature'', JNumber (Fin (- 60))),
        (js_string ''Humidity'', JString (js_string ''55.5''))]" Temperature "Fin (- 60)"]
    C3_clamped [of "JObject [(js_string ''SoilMoisture'', JString (js_string ''150'')),
        (js_string ''Temperature'', JNumber (Fin (- 60))),
        (js_string ''Humidity'', JString (js_string ''55.5''))]" Humidity "Fin (111 / 2)"]
    C3_clamped [of "JObject [(js_string ''SoilMoisture'', JString (js_string ''150'')),
        (js_string ''Temperature'', JObject [(js_string ''toString'', JString (js_string ''x''))])]"
      SoilMoisture NaN]
  by (simp add: convertible_def all_fields_def raw_value_def in_range_def parse_eval round_eval)

text \<open>
  Claim C4. The raw reading with SoilMoisture "150", Temperature null, Humidity "55.5",
  TankLevel "-10" and FlowRate_LperMin "abc" is normalized to soil moisture 100,
  temperature 0, humidity 55.5, tank level 0 and flow rate 0.
\<close>

theorem C4_scenario:
  "handleData (JObject [(js_string ''SoilMoisture'', JString (js_string ''150'')),
       (js_string ''Temperature'', JNull),
       (js_string ''Humidity'', JString (js_string ''55.5'')),
       (js_string ''TankLevel'', JString (js_string ''-10'')),
       (js_string ''FlowRate_LperMin'', JString (js_string ''abc''))]) =
     \<lparr>soilMoisture = Fin 100, temperature = Fin 0, humidity = Fin (111 / 2), tankLevel = Fin 0,
      flowRate = Fin 0\<rparr>"
  by (simp add: handleData_def build_sensor_data_def parseAndValidateSensorValue_def parse_eval
      round_eval DEFAULT_SENSOR_DATA_def isNaN_def Math_min_def Math_max_def)

text \<open>
  Claim C7. \<^verbatim>\<open>getSensorData\<close> resolves to the record the streaming path would hand
  over for the same snapshot value; when the read fails, and when the snapshot holds
  nothing, it resolves to the default record, whose five fields are 0. It never rejects.
\<close>

theorem C7_fetch_once:
  "getSensorData (Inr data) = Inr (handleData data) \<and>
   getSensorData (Inl e) = Inr DEFAULT_SENSOR_DATA \<and>
   getSensorData (Inr JNull) = Inr DEFAULT_SENSOR_DATA \<and>
   DEFAULT_SENSOR_DATA =
     \<lparr>soilMoisture = Fin 0, temperature = Fin 0, humidity = Fin 0, tankLevel = Fin 0,
      flowRate = Fin 0\<rparr>"
proof (intro conjI)
  show "getSensorData (Inr data) = Inr (handleData data)"
    by (rule getSensorData_eq)
qed (simp_all add: getSensorData_def DEFAULT_SENSOR_DATA_def)

text \<open>
  Claim C8. \<^verbatim>\<open>getPumpState\<close> resolves to "OFF" when the read fails and when nothing is
  stored, and to the stored value when that is "ON", "OFF" or any other truthy value (every
  non-empty string is). It never rejects.
\<close>

theorem C8_read_pump:
  "getPumpState (Inl e) = Inr (JString (js_string ''OFF'')) \<and>
   getPumpState (Inr JNull) = Inr (JString (js_string ''OFF'')) \<and>
   getPumpState (Inr (JString (js_string ''ON''))) = Inr (JString (js_string ''ON'')) \<and>
   getPumpState (Inr (JString (js_string ''OFF''))) = Inr (JString (js_string ''OFF'')) \<and>
   (truthy v \<longrightarrow> getPumpState (Inr v) = Inr v)"
  by (simp add: getPumpState_def js_string_def)

text \<open>The stored value "ON" is truthy and is what the read returns.\<close>

theorem C8_read_pump_witness:
  "truthy (JString (js_string ''ON'')) \<and>
   getPumpState (Inr (JString (js_string ''ON''))) = Inr (JString (js_string ''ON''))"
  using C8_read_pump [of TransportError "JString (js_string ''ON'')"] by (simp add: js_string_def)

subsection \<open>Simulated updates\<close>

text \<open>
  Claim C10. One simulated update leaves both zone flags, the pump flag and the connection
  flag as they were, whatever the random draws and the clock are; so a state in which the
  pump flag is the disjunction of the zone flags stays such a state.
\<close>

theorem C10_update_frame:
  "zone1Status (simulatedUpdate r1 r2 r3 r4 r5 now s) = zone1Status s \<and>
   zone2Status (simulatedUpdate r1 r2 r3 r4 r5 now s) = zone2Status s \<and>
   pumpStatus (simulatedUpdate r1 r2 r3 r4 r5 now s) = pumpStatus s \<and>
   isConnected (simulatedUpdate r1 r2 r3 r4 r5 now s) = isConnected s \<and>
   (pump_is_or_of_zones s \<longrightarrow> pump_is_or_of_zones (simulatedUpdate r1 r2 r3 r4 r5 now s))"
  by (simp add: simulatedUpdate_def pump_is_or_of_zones_def)

text \<open>After zone 1 is switched on the invariant holds, and an update keeps it and the pump on.\<close>

theorem C10_update_frame_witness:
  "pump_is_or_of_zones (toggleZone1 (initialSensorData ''10:00:00'')) \<and>
   pump_is_or_of_zones
     (simulatedUpdate (9 / 10) (1 / 10) (1 / 2) 0 (3 / 4) ''10:00:03''
        (toggleZone1 (initialSensorData ''10:00:00''))) \<and>
   pumpStatus
     (simulatedUpdate (9 / 10) (1 / 10) (1 / 2) 0 (3 / 4) ''10:00:03''
        (toggleZone1 (initialSensorData ''10:00:00'')))"
  using C10_update_frame [of "9 / 10" "1 / 10" "1 / 2" 0 "3 / 4" "''10:00:03''"
      "toggleZone1 (initialSensorData ''10:00:00'')"]
  by (simp add: pump_is_or_of_zones_def toggleZone1_def initialSensorData_def Let_def)

subsection \<open>Remote pump state\<close>

text \<open>
  The pump write goes through and the write of the log entry fails: \<^verbatim>\<open>setPumpState\<close>
  resolves to \<^verbatim>\<open>true\<close>, the pump value is stored, and no log entry has been appended.
\<close>

theorem C5_log_failure_counterexample:
  "fst (setPumpState \<lparr>pumpWriteOk = True, logWriteOk = False, pushKey = ''-Nk1'',
          isoNow = ''2025-01-01T00:00:00.000Z''\<rparr> ''ON'' \<lparr>pump = JString (js_string ''OFF''), actions = []\<rparr>) = Inr True \<and>
   pump (snd (setPumpState \<lparr>pumpWriteOk = True, logWriteOk = False, pushKey = ''-Nk1'',
          isoNow = ''2025-01-01T00:00:00.000Z''\<rparr> ''ON'' \<lparr>pump = JString (js_string ''OFF''), actions = []\<rparr>)) = JString (js_string ''ON'') \<and>
   actions (snd (setPumpState \<lparr>pumpWriteOk = True, logWriteOk = False, pushKey = ''-Nk1'',
          isoNow = ''2025-01-01T00:00:00.000Z''\<rparr> ''ON'' \<lparr>pump = JString (js_string ''OFF''), actions = []\<rparr>)) = []"
  by (simp add: setPumpState_def setPumpState_try_def logAction_def remote_set_def)

text \<open>
  Claim C5, as the code has it. \<^verbatim>\<open>setPumpState\<close> never rejects. Called with a value
  other than "ON" and "OFF" it resolves to \<^verbatim>\<open>false\<close> and the store is untouched: no
  pump write, no log entry. When the pump write fails it resolves to \<^verbatim>\<open>false\<close> and the
  store is untouched. When the pump write goes through it resolves to \<^verbatim>\<open>true\<close> with the
  value stored; exactly one log entry, holding the action \<^verbatim>\<open>Pump:\<close> followed by the
  state, the timestamp and the user, is appended when the write of the entry goes through
  as well, and none when that write fails.
\<close>

theorem C5_write_pump:
  "(\<exists>b. fst (setPumpState env state db) = Inr b) \<and>
   (state \<noteq> ''ON'' \<and> state \<noteq> ''OFF'' \<longrightarrow> setPumpState env state db = (Inr False, db)) \<and>
   ((state = ''ON'' \<or> state = ''OFF'') \<and> \<not> pumpWriteOk env \<longrightarrow>
      setPumpState env state db = (Inr False, db)) \<and>
   ((state = ''ON'' \<or> state = ''OFF'') \<and> pumpWriteOk env \<and> logWriteOk env \<longrightarrow>
      setPumpState env state db =
        (Inr True,
         db\<lparr>pump := JString (js_string state),
            actions := actions db @
              [(pushKey env,
                \<lparr>action = ''Pump:'' @ state, timestamp = isoNow env, user = ''web_app''\<rparr>)]\<rparr>)) \<and>
   ((state = ''ON'' \<or> state = ''OFF'') \<and> pumpWriteOk env \<and> \<not> logWriteOk env \<longrightarrow>
      setPumpState env state db = (Inr True, db\<lparr>pump := JString (js_string state)\<rparr>))"
  by (auto simp: setPumpState_def setPumpState_try_def logAction_def remote_set_def)

text \<open>The four cases at concrete stores: a rejected value, a failed pump write, both writes, a failed log write.\<close>

theorem C5_write_pump_witness:
  "setPumpState \<lparr>pumpWriteOk = True, logWriteOk = True, pushKey = ''-Nk1'',
       isoNow = ''2025-01-01T00:00:00.000Z''\<rparr> ''MAYBE'' \<lparr>pump = JString (js_string ''OFF''), actions = []\<rparr> =
     (Inr False, \<lparr>pump = JString (js_string ''OFF''), actions = []\<rparr>) \<and>
   setPumpState \<lparr>pumpWriteOk = False, logWriteOk = True, pushKey = ''-Nk1'',
       isoNow = ''2025-01-01T00:00:00.000Z''\<rparr> ''ON'' \<lparr>pump = JString (js_string ''OFF''), actions = []\<rparr> =
     (Inr False, \<lparr>pump = JString (js_string ''OFF''), actions = []\<rparr>) \<and>
   setPumpState \<lparr>pumpWriteOk = True, logWriteOk = True, pushKey = ''-Nk1'',
       isoNow = ''2025-01-01T00:00:00.000Z''\<rparr> ''ON'' \<lparr>pump = JString (js_string ''OFF''), actions = []\<rparr> =
     (Inr True,
      \<lparr>pump = JString (js_string ''ON''),
       actions = [(''-Nk1'', \<lparr>action = ''Pump:ON'', timestamp = ''2025-01-01T00:00:00.000Z'',
                   user = ''web_app''\<rparr>)]\<rparr>) \<and>
   setPumpState \<lparr>pumpWriteOk = True, logWriteOk = False, pushKey = ''-Nk1'',
       isoNow = ''2025-01-01T00:00:00.000Z''\<rparr> ''OFF'' \<lparr>pump = JString (js_string ''ON''), actions = []\<rparr> =
     (Inr True, \<lparr>pump = JString (js_string ''OFF''), actions = []\<rparr>)"
  using
    C5_write_pump [of "\<lparr>pumpWriteOk = True, logWriteOk = True, pushKey = ''-Nk1'',
       isoNow = ''2025-01-01T00:00:00.000Z''\<rparr>" "''MAYBE''" "\<lparr>pump = JString (js_string ''OFF''), actions = []\<rparr>"]
    C5_write_pump [of "\<lparr>pumpWriteOk = False, logWriteOk = True, pushKey = ''-Nk1'',
       isoNow = ''2025-01-01T00:00:00.000Z''\<rparr>" "''ON''" "\<lparr>pump = JString (js_string ''OFF''), actions = []\<rparr>"]
    C5_write_pump [of "\<lparr>pumpWriteOk = True, logWriteOk = True, pushKey = ''-Nk1'',
       isoNow = ''2025-01-01T00:00:00.000Z''\<rparr>" "''ON''" "\<lparr>pump = JString (js_string ''OFF''), actions = []\<rparr>"]
    C5_write_pump [of "\<lparr>pumpWriteOk = True, logWriteOk = False, pushKey = ''-Nk1'',
       isoNow = ''2025-01-01T00:00:00.000Z''\<rparr>" "''OFF''" "\<lparr>pump = JString (js_string ''ON''), actions = []\<rparr>"]
  by simp

subsection \<open>Authentication errors\<close>

text \<open>
  A provider error with a code the \<^verbatim>\<open>switch\<close> does not list: its own message is what
  the caller gets, and that message is none of the service's eleven.
\<close>

theorem C6_raw_message_counterexample:
  "getAuthErrorMessage \<lparr>code = Some ''auth/network-request-failed'',
       message = Some ''Firebase: Error (auth/network-request-failed).''\<rparr> =
     ''Firebase: Error (auth/network-request-failed).'' \<and>
   ''Firebase: Error (auth/network-request-failed).'' \<notin> set auth_vocabulary"
  by (simp add: getAuthErrorMessage_def auth_vocabulary_def code_messages_def catch_all_message_def)

text \<open>
  Claim C6, as the code has it. What a method of the service throws is the result of
  \<^verbatim>\<open>getAuthErrorMessage\<close>. Each of the ten listed codes gives its own fixed message,
  whatever message the provider gave. Any other error gives the error's own message when
  that is a non-empty string, and the catch-all message otherwise.
\<close>

theorem C6_auth_messages:
  "signIn (Inl e) = Inl (getAuthErrorMessage e) \<and>
   (code e = Some ''auth/user-not-found'' \<longrightarrow>
      getAuthErrorMessage e = ''No user found with this email address.'') \<and>
   (code e = Some ''auth/wrong-password'' \<longrightarrow>
      getAuthErrorMessage e = ''Incorrect password. Please try again.'') \<and>
   (code e = Some ''auth/email-already-in-use'' \<longrightarrow>
      getAuthErrorMessage e = ''An account already exists with this email address.'') \<and>
   (code e = Some ''auth/weak-password'' \<longrightarrow>
      getAuthErrorMessage e = ''Password is too weak. Please choose a stronger password.'') \<and>
   (code e = Some ''auth/invalid-email'' \<longrightarrow>
      getAuthErrorMessage e = ''Invalid email address. Please check your email.'') \<and>
   (code e = Some ''auth/user-disabled'' \<longrightarrow>
      getAuthErrorMessage e = ''This account has been disabled. Please contact support.'') \<and>
   (code e = Some ''auth/too-many-requests'' \<longrightarrow>
      getAuthErrorMessage e = ''Too many failed attempts. Please try again later.'') \<and>
   (code e = Some ''auth/operation-not-allowed'' \<longrightarrow>
      getAuthErrorMessage e = ''This sign-in method is not allowed. Please contact support.'') \<and>
   (code e = Some ''auth/invalid-credential'' \<longrightarrow>
      getAuthErrorMessage e = ''Invalid credentials. Please check your email and password.'') \<and>
   (code e = Some ''auth/requires-recent-login'' \<longrightarrow>
      getAuthErrorMessage e = ''Please sign in again to perform this action.'') \<and>
   (code e \<notin> Some ` set known_codes \<longrightarrow>
      getAuthErrorMessage e =
        (case message e of
           None \<Rightarrow> catch_all_message
         | Some m \<Rightarrow> if m = [] then catch_all_message else m))"
  by (simp add: signIn_def getAuthErrorMessage_def known_codes_def catch_all_message_def
      split: option.split)

text \<open>
  The ten listed codes with a provider message each, an error without a code, and an
  unlisted code without a message.
\<close>

theorem C6_auth_messages_witness:
  "getAuthErrorMessage \<lparr>code = Some ''auth/user-not-found'', message = Some ''Firebase: Error (auth/user-not-found).''\<rparr> =
     ''No user found with this email address.'' \<and>
   getAuthErrorMessage \<lparr>code = Some ''auth/wrong-password'', message = Some ''Firebase: Error (auth/wrong-password).''\<rparr> =
     ''Incorrect password. Please try again.'' \<and>
   getAuthErrorMessage \<lparr>code = Some ''auth/email-already-in-use'', message = Some ''Firebase: Error (auth/email-already-in-use).''\<rparr> =
     ''An account already exists with this email address.'' \<and>
   getAuthErrorMessage \<lparr>code = Some ''auth/weak-password'', message = Some ''Firebase: Error (auth/weak-password).''\<rparr> =
     ''Password is too weak. Please choose a stronger password.'' \<and>
   getAuthErrorMessage \<lparr>code = Some ''auth/invalid-email'', message = Some ''Firebase: Error (auth/invalid-email).''\<rparr> =
     ''Invalid email address. Please check your email.'' \<and>
   getAuthErrorMessage \<lparr>code = Some ''auth/user-disabled'', message = Some ''Firebase: Error (auth/user-disabled).''\<rparr> =
     ''This account has been disabled. Please contact support.'' \<and>
   getAuthErrorMessage \<lparr>code = Some ''auth/too-many-requests'', message = Some ''Firebase: Error (auth/too-many-requests).''\<rparr> =
     ''Too many failed attempts. Please try again later.'' \<and>
   getAuthErrorMessage \<lparr>code = Some ''auth/operation-not-allowed'', message = Some ''Firebase: Error (auth/operation-not-allowed).''\<rparr> =
     ''This sign-in method is not allowed. Please contact support.'' \<and>
   getAuthErrorMessage \<lparr>code = Some ''auth/invalid-credential'', message = Some ''Firebase: Error (auth/invalid-credential).''\<rparr> =
     ''Invalid credentials. Please check your email and password.'' \<and>
   getAuthErrorMessage \<lparr>code = Some ''auth/requires-recent-login'', message = Some ''Firebase: Error (auth/requires-recent-login).''\<rparr> =
     ''Please sign in again to perform this action.'' \<and>
   None \<notin> Some ` set known_codes \<and>
   getAuthErrorMessage \<lparr>code = None, message = Some ''No user logged in''\<rparr> = ''No user logged in'' \<and>
   Some ''auth/internal-error'' \<notin> Some ` set known_codes \<and>
   getAuthErrorMessage \<lparr>code = Some ''auth/internal-error'', message = None\<rparr> =
     ''An authentication error occurred.''"
  using
    C6_auth_messages [of "\<lparr>code = Some ''auth/user-not-found'', message = Some ''Firebase: Error (auth/user-not-found).''\<rparr>"]
    C6_auth_messages [of "\<lparr>code = Some ''auth/wrong-password'', message = Some ''Firebase: Error (auth/wrong-password).''\<rparr>"]
    C6_auth_messages [of "\<lparr>code = Some ''auth/email-already-in-use'', message = Some ''Firebase: Error (auth/email-already-in-use).''\<rparr>"]
    C6_auth_messages [of "\<lparr>code = Some ''auth/weak-password'', message = Some ''Firebase: Error (auth/weak-password).''\<rparr>"]
    C6_auth_messages [of "\<lparr>code = Some ''auth/invalid-email'', message = Some ''Firebase: Error (auth/invalid-email).''\<rparr>"]
    C6_auth_messages [of "\<lparr>code = Some ''auth/user-disabled'', message = Some ''Firebase: Error (auth/user-disabled).''\<rparr>"]
    C6_auth_messages [of "\<lparr>code = Some ''auth/too-many-requests'', message = Some ''Firebase: Error (auth/too-many-requests).''\<rparr>"]
    C6_auth_messages [of "\<lparr>code = Some ''auth/operation-not-allowed'', message = Some ''Firebase: Error (auth/operation-not-allowed).''\<rparr>"]
    C6_auth_messages [of "\<lparr>code = Some ''auth/invalid-credential'', message = Some ''Firebase: Error (auth/invalid-credential).''\<rparr>"]
    C6_auth_messages [of "\<lparr>code = Some ''auth/requires-recent-login'', message = Some ''Firebase: Error (auth/requires-recent-login).''\<rparr>"]
    C6_auth_messages [of "\<lparr>code = None, message = Some ''No user logged in''\<rparr>"]
    C6_auth_messages [of "\<lparr>code = Some ''auth/internal-error'', message = None\<rparr>"]
  by (simp add: known_codes_def catch_all_message_def getAuthErrorMessage_def)

subsection \<open>Report export\<close>

lemma digits_small: "n < 10 \<Longrightarrow> digits_of_nat n = [''0123456789'' ! n]"
  by (simp add: digits_of_nat.simps)

lemma digits_big:
  "\<not> n < 10 \<Longrightarrow> digits_of_nat n = digits_of_nat (n div 10) @ [''0123456789'' ! (n mod 10)]"
  by (subst digits_of_nat.simps) simp

text \<open>The facts that evaluate the number renderings on literals.\<close>

lemmas number_text = toFixed_def toFixed_number_def int_to_string_def num_div_def num_rem_def
  js_rem_def Math_floor_def number_to_string_def digits_small digits_big floor_rat_numeral
  floor_rat_one Let_def

lemma html_row_cells: "html_row = (\<lambda>r. html_tr (row_cells r))"
  by (rule ext) (simp add: html_row_def html_tr_def row_cells_def)

lemma html_head_structure:
  "html_head reportType stats currentDate =
     html_fixed1 @ currentDate @ html_fixed2 @
     (if reportType = ''daily'' then ''Daily'' else ''Weekly'') @ html_fixed3 @
     concat (map html_summary_item (zip (summary_figures stats) html_labels)) @ html_fixed4 @
     concat (map html_th table_columns) @ html_fixed5"
  by (simp add: html_head_def html_fixed1_def html_fixed2_def html_fixed3_def html_fixed4_def
      html_fixed5_def summary_figures_def html_labels_def html_summary_item_def html_th_def
      table_columns_def)

lemma sample_csv:
  "content (exportReport Csv ''daily'' sample_reports [] d) =
''Date,Water Used (L),Runtime (min),Pump Cycles,Avg Soil Moisture (%),Alerts,Efficiency (%)
2025-01-01,25.50,45.0,3,60.0,1,80.0
2025-01-02,30.25,90.5,5,65.5,0,90.0''"
  by (simp add: exportReport_def getCurrentData_def exportToCSV_def sample_reports_def number_text)

lemma sample_stats:
  "getTotalStats sample_reports =
     \<lparr>totalWater = Fin (223 / 4), totalTime = Fin (271 / 2), totalCycles = 8,
      avgEfficiency = Fin 85, totalAlerts = 1\<rparr>"
  by (simp add: getTotalStats_def sample_reports_def num_div_def round_eval)

lemma sample_hours: "Math_floor (num_div (Fin (271 / 2)) 60) = Fin 2"
  by (simp add: Math_floor_def num_div_def round_eval)

lemma sample_excel:
  "content (exportReport Excel ''daily'' sample_reports [] d) =
''AgroSmart Irrigation Report
Generated: '' @ d @ ''
Report Type: Daily Report
Total Water: 55.8L
Total Runtime: 2h 15m
Total Cycles: 8
Average Efficiency: 85.0%
Total Alerts: 1

Date,Water Used (L),Runtime (min),Pump Cycles,Avg Soil Moisture (%),Alerts,Efficiency (%)
2025-01-01,25.50,45.0,3,60.0,1,80.0
2025-01-02,30.25,90.5,5,65.5,0,90.0''"
  by (simp add: exportReport_def getCurrentData_def exportToExcel_def sample_stats sample_hours)
    (simp add: sample_reports_def toFixed_def toFixed_number_def int_to_string_def num_rem_def
      js_rem_def Math_floor_def number_to_string_def digits_small digits_big floor_rat_numeral
      floor_rat_one Let_def)

text \<open>
  The same two-day dataset exported on two different days gives two different
  header-block documents, since the generation date is part of the text; and the
  comma-delimited document is the title line and the two rows, with none of the summary
  figures (55.8L, 2h 15m, 8, 85.0%, 1) that the header-block document carries.
\<close>

theorem C9_exports_counterexample:
  "content (exportReport Excel ''daily'' sample_reports [] ''1/2/2025'') \<noteq>
   content (exportReport Excel ''daily'' sample_reports [] ''1/3/2025'') \<and>
   content (exportReport Csv ''daily'' sample_reports [] ''1/2/2025'') =
''Date,Water Used (L),Runtime (min),Pump Cycles,Avg Soil Moisture (%),Alerts,Efficiency (%)
2025-01-01,25.50,45.0,3,60.0,1,80.0
2025-01-02,30.25,90.5,5,65.5,0,90.0'' \<and>
   content (exportReport Excel ''daily'' sample_reports [] ''1/2/2025'') =
''AgroSmart Irrigation Report
Generated: 1/2/2025
Report Type: Daily Report
Total Water: 55.8L
Total Runtime: 2h 15m
Total Cycles: 8
Average Efficiency: 85.0%
Total Alerts: 1

Date,Water Used (L),Runtime (min),Pump Cycles,Avg Soil Moisture (%),Alerts,Efficiency (%)
2025-01-01,25.50,45.0,3,60.0,1,80.0
2025-01-02,30.25,90.5,5,65.5,0,90.0''"
  by (simp add: sample_csv sample_excel)

text \<open>
  Claim C9, as the code has it. The comma-delimited document is determined by the dataset
  alone: the line of the seven column titles, then one line per record in dataset order
  with the record's seven cells; it holds no summary figures. The header-block variant is
  a header block (title, generation date, report type and the five summary figures of the
  dataset, each after its label), an empty line, and then the text of the comma-delimited
  document. The hypertext document is fixed text around the generation date, the report
  type, the five summary figures of the dataset (each over its label), the seven column
  titles, and one table row per record in dataset order with the same seven cells. So each
  document is a function of the dataset, the report type and the generation date, and of
  nothing else.
\<close>

theorem C9_exports:
  "content (exportReport Csv reportType dailyReports weeklyReports currentDate) =
     join [CHR 0x0A]
       (join '','' table_columns #
        map (\<lambda>r. join '','' (row_cells r)) (getCurrentData reportType dailyReports weeklyReports)) \<and>
   content (exportReport Excel reportType dailyReports weeklyReports currentDate) =
     join [CHR 0x0A]
       ([''AgroSmart Irrigation Report'',
         ''Generated: '' @ currentDate,
         ''Report Type: '' @ (if reportType = ''daily'' then ''Daily'' else ''Weekly'') @ '' Report''] @
        map (\<lambda>(label, figure). label @ figure)
          (zip [''Total Water: '', ''Total Runtime: '', ''Total Cycles: '',
                ''Average Efficiency: '', ''Total Alerts: '']
             (summary_figures (getTotalStats (getCurrentData reportType dailyReports weeklyReports))))) @
     [CHR 0x0A, CHR 0x0A] @
     content (exportReport Csv reportType dailyReports weeklyReports otherDate) \<and>
   content (exportReport Pdf reportType dailyReports weeklyReports currentDate) =
     html_fixed1 @ currentDate @ html_fixed2 @
     (if reportType = ''daily'' then ''Daily'' else ''Weekly'') @ html_fixed3 @
     concat (map html_summary_item
       (zip (summary_figures (getTotalStats (getCurrentData reportType dailyReports weeklyReports)))
          html_labels)) @
     html_fixed4 @
     concat (map html_th table_columns) @
     html_fixed5 @
     concat (map (\<lambda>r. html_tr (row_cells r)) (getCurrentData reportType dailyReports weeklyReports)) @
     html_tail"
proof (intro conjI)
  show "content (exportReport Csv reportType dailyReports weeklyReports currentDate) =
     join [CHR 0x0A]
       (join '','' table_columns #
        map (\<lambda>r. join '','' (row_cells r)) (getCurrentData reportType dailyReports weeklyReports))"
    by (simp add: exportReport_def exportToCSV_def table_columns_def row_cells_def Let_def)
next
  show "content (exportReport Excel reportType dailyReports weeklyReports currentDate) =
     join [CHR 0x0A]
       ([''AgroSmart Irrigation Report'',
         ''Generated: '' @ currentDate,
         ''Report Type: '' @ (if reportType = ''daily'' then ''Daily'' else ''Weekly'') @ '' Report''] @
        map (\<lambda>(label, figure). label @ figure)
          (zip [''Total Water: '', ''Total Runtime: '', ''Total Cycles: '',
                ''Average Efficiency: '', ''Total Alerts: '']
             (summary_figures (getTotalStats (getCurrentData reportType dailyReports weeklyReports))))) @
     [CHR 0x0A, CHR 0x0A] @
     content (exportReport Csv reportType dailyReports weeklyReports otherDate)"
    by (simp add: exportReport_def exportToCSV_def exportToExcel_def summary_figures_def Let_def)
next
  have "content (exportReport Pdf reportType dailyReports weeklyReports currentDate) =
     html_head reportType (getTotalStats (getCurrentData reportType dailyReports weeklyReports))
       currentDate @
     concat (map (\<lambda>r. html_tr (row_cells r)) (getCurrentData reportType dailyReports weeklyReports)) @
     html_tail"
    by (simp add: exportReport_def exportToPDF_def html_row_cells Let_def)
  then show "content (exportReport Pdf reportType dailyReports weeklyReports currentDate) =
     html_fixed1 @ currentDate @ html_fixed2 @
     (if reportType = ''daily'' then ''Daily'' else ''Weekly'') @ html_fixed3 @
     concat (map html_summary_item
       (zip (summary_figures (getTotalStats (getCurrentData reportType dailyReports weeklyReports)))
          html_labels)) @
     html_fixed4 @
     concat (map html_th table_columns) @
     html_fixed5 @
     concat (map (\<lambda>r. html_tr (row_cells r)) (getCurrentData reportType dailyReports weeklyReports)) @
     html_tail"
    by (simp only: html_head_structure append_assoc)
qed

end
